theory Spec2Isabelle
  imports Complex_Main "HOL-Library.Product_Lexorder"
begin

section \<open>Manufacturing price calculator\<close>

text \<open>
  A shallow embedding of \<^verbatim>\<open>manufacturing_calculator.py\<close> and of
  \<^verbatim>\<open>validate_inputs\<close> from \<^verbatim>\<open>utils.py\<close>. Python floats are read as
  rationals (type \<open>rat\<close>), Python ints as \<open>int\<close>. A Python exception is a value
  \<open>Inl e\<close> of the result type; the only exception the arithmetic can raise is
  \<^verbatim>\<open>ZeroDivisionError\<close>, which \<^verbatim>\<open>/\<close> raises on a zero divisor.
\<close>

subsection \<open>Errors and division\<close>

datatype py_error = ZeroDivisionError

definition py_div :: "rat \<Rightarrow> rat \<Rightarrow> py_error + rat" where
  "py_div a b = (if b = 0 then Inl ZeroDivisionError else Inr (a / b))"

subsection \<open>The single-quantity engine\<close>

text \<open>The dictionary returned by \<^verbatim>\<open>calculate_price\<close>, one field per key.\<close>

record calc_result =
  machine_cost_per_piece :: rat
  labor_cost_per_piece :: rat
  material_cost_per_piece :: rat
  additional_material_cost :: rat
  direct_cost_per_piece :: rat
  overhead_cost_per_piece :: rat
  base_cost_per_piece :: rat
  profit_per_piece :: rat
  price_per_piece :: rat
  total_batch_cost :: rat
  machine_cost_percentage :: rat
  material_cost_percentage :: rat
  additional_material_cost_percentage :: rat
  labor_cost_percentage :: rat
  overhead_cost_percentage :: rat
  base_cost_percentage :: rat
  profit_percentage :: rat

text \<open>
  \<^verbatim>\<open>calculate_price\<close>, statement by statement. The seven percentage divisions are
  evaluated in the order of the source; each can raise.
\<close>

definition calculate_price ::
  "rat \<Rightarrow> rat \<Rightarrow> rat \<Rightarrow> rat \<Rightarrow> rat \<Rightarrow> rat \<Rightarrow> rat \<Rightarrow> int \<Rightarrow> bool \<Rightarrow> py_error + calc_result" where
  "calculate_price machine_cost_per_hour material_cost_per_unit production_time_minutes
     labor_cost_per_hour overhead_percentage profit_margin_percentage additional_material_cost_in
     batch_size include_labor_cost =
   (let production_time_hours = production_time_minutes / 60;
        machine_cost_pp = machine_cost_per_hour * production_time_hours;
        labor_cost_pp = (if include_labor_cost then labor_cost_per_hour * production_time_hours else 0);
        material_cost_pp = material_cost_per_unit;
        direct_cost_pp = machine_cost_pp + labor_cost_pp + material_cost_pp + additional_material_cost_in;
        overhead_cost_pp = direct_cost_pp * (overhead_percentage / 100);
        base_cost_pp = direct_cost_pp + overhead_cost_pp;
        profit_pp = base_cost_pp * (profit_margin_percentage / 100);
        price_pp = base_cost_pp + profit_pp;
        total_batch = price_pp * of_int batch_size;
        total_cost_pp = price_pp
    in case py_div machine_cost_pp total_cost_pp of Inl e \<Rightarrow> Inl e | Inr machine_q \<Rightarrow>
       (case py_div material_cost_pp total_cost_pp of Inl e \<Rightarrow> Inl e | Inr material_q \<Rightarrow>
       (case py_div additional_material_cost_in total_cost_pp of Inl e \<Rightarrow> Inl e | Inr additional_q \<Rightarrow>
       (case py_div labor_cost_pp total_cost_pp of Inl e \<Rightarrow> Inl e | Inr labor_q \<Rightarrow>
       (case py_div overhead_cost_pp total_cost_pp of Inl e \<Rightarrow> Inl e | Inr overhead_q \<Rightarrow>
       (case py_div base_cost_pp total_cost_pp of Inl e \<Rightarrow> Inl e | Inr base_q \<Rightarrow>
       (case py_div profit_pp total_cost_pp of Inl e \<Rightarrow> Inl e | Inr profit_q \<Rightarrow>
          Inr \<lparr> machine_cost_per_piece = machine_cost_pp,
                labor_cost_per_piece = labor_cost_pp,
                material_cost_per_piece = material_cost_pp,
                additional_material_cost = additional_material_cost_in,
                direct_cost_per_piece = direct_cost_pp,
                overhead_cost_per_piece = overhead_cost_pp,
                base_cost_per_piece = base_cost_pp,
                profit_per_piece = profit_pp,
                price_per_piece = price_pp,
                total_batch_cost = total_batch,
                machine_cost_percentage = machine_q * 100,
                material_cost_percentage = material_q * 100,
                additional_material_cost_percentage = additional_q * 100,
                labor_cost_percentage = labor_q * 100,
                overhead_cost_percentage = overhead_q * 100,
                base_cost_percentage = base_q * 100,
                profit_percentage = profit_q * 100 \<rparr>)))))))"

subsection \<open>The multi-quantity engine\<close>

text \<open>
  The entry stored under each quantity. Its keys \<^verbatim>\<open>price_per_piece\<close> and
  \<^verbatim>\<open>total_cost\<close> are written \<open>qty_price_per_piece\<close> and \<open>qty_total_cost\<close>,
  to keep them apart from the fields of the inner dictionary.
\<close>

record quantity_result =
  qty_price_per_piece :: rat
  qty_total_cost :: rat
  setup_cost_per_piece :: rat
  material_discount_percentage :: rat
  discounted_material_cost :: rat
  base_result :: calc_result

text \<open>Lines 65 and 66: the setup cost of one run.\<close>

definition setup_cost :: "rat \<Rightarrow> rat \<Rightarrow> rat" where
  "setup_cost setup_cost_per_hour setup_time_minutes =
     (let setup_time_hours = setup_time_minutes / 60
      in setup_cost_per_hour * setup_time_hours)"

text \<open>
  Lines 71 to 76: the discount tiers are the items of a dictionary, a list of pairs
  with distinct keys. \<^verbatim>\<open>sorted\<close> orders the pairs lexicographically, and the loop
  overwrites \<^verbatim>\<open>applied_discount\<close> at every tier the quantity reaches.
\<close>

definition applied_discount :: "(int \<times> rat) list \<Rightarrow> int \<Rightarrow> rat" where
  "applied_discount material_discount_tiers quantity =
     fold (\<lambda>(tier_quantity, discount_percentage) applied.
             if quantity \<ge> tier_quantity then discount_percentage else applied)
          (sort material_discount_tiers) 0"

text \<open>The body of the loop over the quantities, lines 64 to 107.\<close>

definition price_for_quantity ::
  "rat \<Rightarrow> rat \<Rightarrow> rat \<Rightarrow> rat \<Rightarrow> rat \<Rightarrow> (int \<times> rat) list \<Rightarrow> rat \<Rightarrow> rat \<Rightarrow> rat \<Rightarrow> bool \<Rightarrow> rat
     \<Rightarrow> int \<Rightarrow> py_error + quantity_result" where
  "price_for_quantity machine_cost_per_hour material_cost_per_unit production_time_minutes
     setup_time_minutes setup_cost_per_hour material_discount_tiers overhead_percentage
     profit_margin_percentage additional_material_cost_in include_labor_cost labor_cost_per_hour
     quantity =
   (case py_div (setup_cost setup_cost_per_hour setup_time_minutes) (of_int quantity) of
      Inl e \<Rightarrow> Inl e
    | Inr setup_cost_pp \<Rightarrow>
       (let discount = applied_discount material_discount_tiers quantity;
            discounted = (if discount > 0 then material_cost_per_unit * (1 - discount / 100)
                          else material_cost_per_unit)
        in case calculate_price machine_cost_per_hour discounted production_time_minutes
                  labor_cost_per_hour overhead_percentage profit_margin_percentage
                  additional_material_cost_in quantity include_labor_cost of
             Inl e \<Rightarrow> Inl e
           | Inr regular_result \<Rightarrow>
              (let price_with_setup = price_per_piece regular_result + setup_cost_pp;
                   total = price_with_setup * of_int quantity
               in Inr \<lparr> qty_price_per_piece = price_with_setup,
                        qty_total_cost = total,
                        setup_cost_per_piece = setup_cost_pp,
                        material_discount_percentage = discount,
                        discounted_material_cost = discounted,
                        base_result = regular_result \<rparr>)))"

text \<open>
  The loop itself: \<^verbatim>\<open>results[quantity] = ...\<close> for each quantity in turn; an
  exception in the body ends the call.
\<close>

fun quantities_loop ::
  "(int \<Rightarrow> py_error + quantity_result) \<Rightarrow> int list \<Rightarrow> (int \<rightharpoonup> quantity_result)
     \<Rightarrow> py_error + (int \<rightharpoonup> quantity_result)" where
  "quantities_loop body [] results = Inr results"
| "quantities_loop body (quantity # rest) results =
     (case body quantity of
        Inl e \<Rightarrow> Inl e
      | Inr entry \<Rightarrow> quantities_loop body rest (results(quantity \<mapsto> entry)))"

definition calculate_multi_quantity_prices ::
  "rat \<Rightarrow> rat \<Rightarrow> rat \<Rightarrow> rat \<Rightarrow> int list \<Rightarrow> rat option \<Rightarrow> (int \<times> rat) list option \<Rightarrow> rat \<Rightarrow> rat
     \<Rightarrow> rat \<Rightarrow> bool \<Rightarrow> rat \<Rightarrow> py_error + (int \<rightharpoonup> quantity_result)" where
  "calculate_multi_quantity_prices machine_cost_per_hour material_cost_per_unit
     production_time_minutes setup_time_minutes quantities setup_cost_per_hour
     material_discount_tiers overhead_percentage profit_margin_percentage
     additional_material_cost_in include_labor_cost labor_cost_per_hour =
   (let setup_rate = (case setup_cost_per_hour of None \<Rightarrow> machine_cost_per_hour | Some r \<Rightarrow> r);
        tiers = (case material_discount_tiers of None \<Rightarrow> [] | Some t \<Rightarrow> t)
    in quantities_loop
         (price_for_quantity machine_cost_per_hour material_cost_per_unit production_time_minutes
            setup_time_minutes setup_rate tiers overhead_percentage profit_margin_percentage
            additional_material_cost_in include_labor_cost labor_cost_per_hour)
         quantities Map.empty)"

subsection \<open>The input validator\<close>

definition validate_inputs ::
  "rat \<Rightarrow> rat \<Rightarrow> rat \<Rightarrow> rat \<Rightarrow> rat \<Rightarrow> rat \<Rightarrow> int \<Rightarrow> bool \<times> string" where
  "validate_inputs machine_cost_per_hour material_cost_per_unit production_time_minutes
     labor_cost_per_hour overhead_percentage profit_margin_percentage batch_size =
   (if machine_cost_per_hour < 0 then (False, ''Machine cost per hour cannot be negative.'')
    else if material_cost_per_unit < 0 then (False, ''Material cost per unit cannot be negative.'')
    else if production_time_minutes \<le> 0 then (False, ''Production time must be greater than zero.'')
    else if labor_cost_per_hour < 0 then (False, ''Labor cost per hour cannot be negative.'')
    else if overhead_percentage < 0 \<or> overhead_percentage > 100
      then (False, ''Overhead percentage must be between 0 and 100.'')
    else if profit_margin_percentage < 0 \<or> profit_margin_percentage > 100
      then (False, ''Profit margin percentage must be between 0 and 100.'')
    else if batch_size \<le> 0 then (False, ''Batch size must be greater than zero.'')
    else (True, ''Inputs valid''))"

section \<open>Auxiliary facts\<close>

subsection \<open>The single-quantity engine in closed form\<close>

text \<open>
  All seven divisions have the divisor \<^verbatim>\<open>total_cost = price_per_piece\<close>, so the call
  raises exactly when the price per piece is zero.
\<close>

lemma calculate_price_unfold:
  "calculate_price mc mat t l ov pm a b inc =
    (let h = t / 60; m = mc * h; lab = (if inc then l * h else 0);
         d = m + lab + mat + a; oc = d * (ov / 100); bs = d + oc;
         pr = bs * (pm / 100); P = bs + pr
     in if P = 0 then Inl ZeroDivisionError
        else Inr \<lparr> machine_cost_per_piece = m, labor_cost_per_piece = lab,
                material_cost_per_piece = mat, additional_material_cost = a,
                direct_cost_per_piece = d, overhead_cost_per_piece = oc,
                base_cost_per_piece = bs, profit_per_piece = pr,
                price_per_piece = P, total_batch_cost = P * of_int b,
                machine_cost_percentage = m / P * 100,
                material_cost_percentage = mat / P * 100,
                additional_material_cost_percentage = a / P * 100,
                labor_cost_percentage = lab / P * 100,
                overhead_cost_percentage = oc / P * 100,
                base_cost_percentage = bs / P * 100,
                profit_percentage = pr / P * 100 \<rparr>)"
  unfolding calculate_price_def py_div_def Let_def by simp

lemma share_sum:
  fixes P :: rat
  assumes "P \<noteq> 0" and "m + lab + mat + a + oc + pr = P"
  shows "m / P * 100 + lab / P * 100 + mat / P * 100 + a / P * 100 + oc / P * 100 + pr / P * 100 = 100"
proof -
  have "m / P * 100 + lab / P * 100 + mat / P * 100 + a / P * 100 + oc / P * 100 + pr / P * 100
        = (m + lab + mat + a + oc + pr) / P * 100"
    by (simp add: add_divide_distrib distrib_right)
  also have "\<dots> = 100" using assms by simp
  finally show ?thesis .
qed

subsection \<open>The loop over the quantities\<close>

lemma quantities_loop_result:
  assumes "quantities_loop body qs m = Inr res"
  shows "(q \<in> set qs \<longrightarrow> (\<exists>r. body q = Inr r \<and> res q = Some r)) \<and> (q \<notin> set qs \<longrightarrow> res q = m q)"
  using assms
proof (induction qs arbitrary: m)
  case Nil
  then show ?case by simp
next
  case (Cons x xs)
  from Cons.prems obtain entry where e: "body x = Inr entry"
    and rest: "quantities_loop body xs (m(x \<mapsto> entry)) = Inr res"
    by (auto split: sum.splits)
  from Cons.IH[OF rest] e show ?case
    by (cases "q \<in> set xs") auto
qed

lemma quantities_loop_dom:
  assumes "quantities_loop body qs m = Inr res"
  shows "dom res = dom m \<union> set qs"
  using assms
proof (induction qs arbitrary: m)
  case Nil
  then show ?case by simp
next
  case (Cons x xs)
  from Cons.prems obtain entry where
    rest: "quantities_loop body xs (m(x \<mapsto> entry)) = Inr res"
    by (auto split: sum.splits)
  from Cons.IH[OF rest] show ?case by auto
qed

lemma quantities_loop_returns:
  assumes "\<forall>q\<in>set qs. \<exists>r. body q = Inr r"
  shows "\<exists>res. quantities_loop body qs m = Inr res"
  using assms
proof (induction qs arbitrary: m)
  case Nil
  then show ?case by simp
next
  case (Cons x xs)
  then obtain entry where e: "body x = Inr entry" by auto
  have "\<forall>q\<in>set xs. \<exists>r. body q = Inr r" using Cons.prems by simp
  from Cons.IH[OF this] obtain res
    where "quantities_loop body xs (m(x \<mapsto> entry)) = Inr res" by blast
  then have "quantities_loop body (x # xs) m = Inr res" by (simp add: e)
  then show ?case by blast
qed

subsection \<open>The loop over the discount tiers\<close>

lemma fold_tiers_none:
  fixes xs :: "(int \<times> rat) list"
  assumes "\<forall>td\<in>set xs. q < fst td"
  shows "fold (\<lambda>(tier_quantity, discount_percentage) applied.
             if q \<ge> tier_quantity then discount_percentage else applied) xs acc = acc"
  using assms by (induction xs arbitrary: acc) (auto split: prod.splits)

lemma fold_tiers_highest:
  fixes xs :: "(int \<times> rat) list"
  assumes "sorted xs"
    and "\<forall>x\<in>set xs. \<forall>y\<in>set xs. fst x = fst y \<longrightarrow> snd x = snd y"
    and "(t, d) \<in> set xs" and "t \<le> q"
    and "\<forall>td\<in>set xs. fst td \<le> q \<longrightarrow> fst td \<le> t"
  shows "fold (\<lambda>(tier_quantity, discount_percentage) applied.
             if q \<ge> tier_quantity then discount_percentage else applied) xs acc = d"
  using assms
proof (induction xs rule: rev_induct)
  case Nil
  then show ?case by simp
next
  case (snoc x xs)
  obtain t' d' where x: "x = (t', d')" by (cases x)
  show ?case
  proof (cases "t' \<le> q")
    case True
    with snoc.prems(5) x have "t' \<le> t" by auto
    moreover have "(t, d) \<le> (t', d')"
      using snoc.prems(1,3) x by (auto simp: sorted_append)
    ultimately have "t = t'" by (auto simp: less_eq_prod_def)
    with snoc.prems(2,3) x have "d' = d" by fastforce
    with True x show ?thesis by simp
  next
    case False
    with snoc.prems(3,4) x have mem: "(t, d) \<in> set xs" by auto
    have "sorted xs" using snoc.prems(1) by (simp add: sorted_append)
    from snoc.IH[OF this _ mem snoc.prems(4)] snoc.prems(2,5) False x
    show ?thesis by simp
  qed
qed

subsection \<open>One pass of the loop over the quantities\<close>

lemma price_for_quantity_Inr:
  assumes "price_for_quantity mc mat t st rate tiers ov pm a inc l q = Inr r"
  shows "q \<noteq> 0"
    and "setup_cost_per_piece r = setup_cost rate st / of_int q"
    and "material_discount_percentage r = applied_discount tiers q"
    and "discounted_material_cost r =
           (if applied_discount tiers q > 0 then mat * (1 - applied_discount tiers q / 100) else mat)"
    and "calculate_price mc (discounted_material_cost r) t l ov pm a q inc = Inr (base_result r)"
    and "qty_price_per_piece r = price_per_piece (base_result r) + setup_cost_per_piece r"
    and "qty_total_cost r = qty_price_per_piece r * of_int q"
  using assms unfolding price_for_quantity_def py_div_def Let_def
  by (auto split: sum.splits if_splits)

lemma price_for_quantity_returns:
  assumes "q \<noteq> 0"
    and "calculate_price mc (if applied_discount tiers q > 0
            then mat * (1 - applied_discount tiers q / 100) else mat) t l ov pm a q inc = Inr base"
  shows "\<exists>r. price_for_quantity mc mat t st rate tiers ov pm a inc l q = Inr r"
  using assms unfolding price_for_quantity_def py_div_def Let_def
  by (auto split: sum.splits if_splits)

lemma multi_quantity_entry:
  assumes "calculate_multi_quantity_prices mc mat t st qs rate tiers ov pm a inc l = Inr res"
  shows "q \<in> set qs \<Longrightarrow> \<exists>r. res q = Some r"
    and "res q = Some r \<Longrightarrow> q \<in> set qs"
    and "res q = Some r \<Longrightarrow>
          price_for_quantity mc mat t st (case rate of None \<Rightarrow> mc | Some s \<Rightarrow> s)
            (case tiers of None \<Rightarrow> [] | Some ts \<Rightarrow> ts) ov pm a inc l q = Inr r"
proof -
  let ?body = "price_for_quantity mc mat t st (case rate of None \<Rightarrow> mc | Some s \<Rightarrow> s)
            (case tiers of None \<Rightarrow> [] | Some ts \<Rightarrow> ts) ov pm a inc l"
  have loop: "quantities_loop ?body qs Map.empty = Inr res"
    using assms unfolding calculate_multi_quantity_prices_def Let_def .
  note R = quantities_loop_result[OF loop, of q]
  show "q \<in> set qs \<Longrightarrow> \<exists>r. res q = Some r" using R by blast
  show mem: "res q = Some r \<Longrightarrow> q \<in> set qs" using R by (cases "q \<in> set qs") auto
  show "res q = Some r \<Longrightarrow> ?body q = Inr r" using R mem by auto
qed

subsection \<open>Resolving the discount\<close>

lemmas engine_eval = calculate_multi_quantity_prices_def price_for_quantity_def py_div_def
  setup_cost_def applied_discount_def calculate_price_unfold Let_def

lemma applied_discount_none:
  assumes "\<forall>td\<in>set tiers. q < fst td"
  shows "applied_discount tiers q = 0"
  unfolding applied_discount_def using assms by (intro fold_tiers_none) simp

lemma applied_discount_highest:
  assumes "distinct (map fst tiers)" and "(t, d) \<in> set tiers" and "t \<le> q"
    and "\<forall>td\<in>set tiers. fst td \<le> q \<longrightarrow> fst td \<le> t"
  shows "applied_discount tiers q = d"
proof -
  have func: "\<forall>x\<in>set (sort tiers). \<forall>y\<in>set (sort tiers). fst x = fst y \<longrightarrow> snd x = snd y"
  proof (intro ballI impI)
    fix x y assume x: "x \<in> set (sort tiers)" and y: "y \<in> set (sort tiers)" and k: "fst x = fst y"
    obtain k1 v1 where x': "x = (k1, v1)" by (cases x)
    obtain k2 v2 where y': "y = (k2, v2)" by (cases y)
    from x x' have m1: "(k1, v1) \<in> set tiers" by simp
    from y y' k x' have m2: "(k1, v2) \<in> set tiers" by simp
    from eq_key_imp_eq_value[OF assms(1) m1 m2] x' y' show "snd x = snd y" by simp
  qed
  show ?thesis
    unfolding applied_discount_def
    using assms(2-4) by (intro fold_tiers_highest[OF _ func]) simp_all
qed

subsection \<open>Labor not included\<close>

lemma calculate_price_labor:
  "calculate_price mc mat t l1 ov pm a b False = calculate_price mc mat t l2 ov pm a b False"
  unfolding calculate_price_unfold Let_def by simp

lemma price_for_quantity_labor:
  "price_for_quantity mc mat t st rate tiers ov pm a False l1 q
     = price_for_quantity mc mat t st rate tiers ov pm a False l2 q"
proof -
  have "calculate_price mc x t l1 ov pm a q False = calculate_price mc x t l2 ov pm a q False" for x
    by (rule calculate_price_labor)
  then show ?thesis
    unfolding price_for_quantity_def Let_def by (simp only:)
qed

subsection \<open>When the engines return\<close>

text \<open>
  The price per piece is the direct cost times the overhead and profit factors. On inputs
  the validator accepts, with a non-negative additional material cost, the single-quantity
  engine raises exactly when every cost that enters the direct cost is zero. The
  multi-quantity engine returns when moreover the machine cost is positive, no discount
  exceeds 100 and the quantities are positive.
\<close>

lemma price_factor:
  fixes d ov pm :: rat
  shows "d + d * (ov / 100) + (d + d * (ov / 100)) * (pm / 100) = d * ((1 + ov / 100) * (1 + pm / 100))"
  by (simp add: algebra_simps)

lemma calculate_price_raises_iff:
  "calculate_price mc mat t l ov pm a b inc = Inl ZeroDivisionError
     \<longleftrightarrow> (mc * (t / 60) + (if inc then l * (t / 60) else 0) + mat + a)
           * ((1 + ov / 100) * (1 + pm / 100)) = 0"
  unfolding calculate_price_unfold Let_def price_factor by simp

lemma calculate_price_returns_iff:
  "(\<exists>r. calculate_price mc mat t l ov pm a b inc = Inr r)
     \<longleftrightarrow> (mc * (t / 60) + (if inc then l * (t / 60) else 0) + mat + a)
           * ((1 + ov / 100) * (1 + pm / 100)) \<noteq> 0"
  unfolding calculate_price_unfold Let_def price_factor by simp

lemma valid_input_raises_iff:
  assumes "0 \<le> mc" "0 \<le> mat" "0 < t" "0 \<le> l" "0 \<le> ov" "0 \<le> pm" "0 \<le> a"
  shows "calculate_price mc mat t l ov pm a b inc = Inl ZeroDivisionError
     \<longleftrightarrow> mc = 0 \<and> mat = 0 \<and> a = 0 \<and> (inc \<longrightarrow> l = 0)"
proof -
  have f: "(1 + ov / 100) * (1 + pm / 100) \<noteq> 0"
    using assms(5,6) by (simp add: add_nonneg_eq_0_iff)
  have m: "0 \<le> mc * (t / 60)" and lb: "0 \<le> (if inc then l * (t / 60) else 0)"
    using assms(1,3,4) by simp_all
  have "mc * (t / 60) + (if inc then l * (t / 60) else 0) + mat + a = 0
      \<longleftrightarrow> mc * (t / 60) = 0 \<and> (if inc then l * (t / 60) else 0) = 0 \<and> mat = 0 \<and> a = 0"
    using m lb assms(2,7) by linarith
  also have "\<dots> \<longleftrightarrow> mc = 0 \<and> mat = 0 \<and> a = 0 \<and> (inc \<longrightarrow> l = 0)"
    using assms(3) by auto
  finally show ?thesis
    unfolding calculate_price_raises_iff using f by simp
qed


lemma fold_tiers_range:
  fixes xs :: "(int \<times> rat) list"
  shows "fold (\<lambda>(tier_quantity, discount_percentage) applied.
             if q \<ge> tier_quantity then discount_percentage else applied) xs acc
           \<in> insert acc (snd ` set xs)"
proof (induction xs arbitrary: acc)
  case Nil
  then show ?case by simp
next
  case (Cons x xs)
  obtain th d where x: "x = (th, d)" by (cases x)
  have "fold (\<lambda>(tier_quantity, discount_percentage) applied.
             if q \<ge> tier_quantity then discount_percentage else applied) (x # xs) acc
        \<in> insert (if q \<ge> th then d else acc) (snd ` set xs)"
    using Cons.IH[of "if q \<ge> th then d else acc"] x by simp
  moreover have "insert (if q \<ge> th then d else acc) (snd ` set xs)
        \<subseteq> insert acc (snd ` set (x # xs))"
    using x by auto
  ultimately show ?case by blast
qed

lemma applied_discount_range:
  "applied_discount tiers q \<in> insert 0 (snd ` set tiers)"
  unfolding applied_discount_def using fold_tiers_range[of q "sort tiers" 0] by simp

lemma multi_quantity_returns:
  assumes "0 < mc" "0 \<le> mat" "0 < t" "0 \<le> l" "0 \<le> ov" "0 \<le> pm" "0 \<le> a"
    and pos: "\<forall>q\<in>set qs. 0 < q"
    and disc: "\<forall>td\<in>set (case tiers of None \<Rightarrow> [] | Some ts \<Rightarrow> ts). snd td \<le> 100"
  shows "\<exists>res. calculate_multi_quantity_prices mc mat t st qs rate tiers ov pm a inc l = Inr res"
proof -
  let ?ts = "case tiers of None \<Rightarrow> [] | Some ts \<Rightarrow> ts"
  let ?body = "price_for_quantity mc mat t st (case rate of None \<Rightarrow> mc | Some s \<Rightarrow> s)
            ?ts ov pm a inc l"
  have "\<exists>r. ?body q = Inr r" if q: "q \<in> set qs" for q
  proof -
    let ?d = "applied_discount ?ts q"
    let ?m = "if ?d > 0 then mat * (1 - ?d / 100) else mat"
    from applied_discount_range[of ?ts q] disc have "?d \<le> 100" by auto
    then have m: "0 \<le> ?m" using assms(2) by simp
    have f: "(1 + ov / 100) * (1 + pm / 100) \<noteq> 0"
      using assms(5,6) by (simp add: add_nonneg_eq_0_iff)
    have mach: "0 < mc * (t / 60)" using assms(1,3) by simp
    have lb: "0 \<le> (if inc then l * (t / 60) else 0)" using assms(3,4) by simp
    have "mc * (t / 60) + (if inc then l * (t / 60) else 0) + ?m + a \<noteq> 0"
      using mach lb m assms(7) by linarith
    with f have "\<exists>base. calculate_price mc ?m t l ov pm a q inc = Inr base"
      unfolding calculate_price_returns_iff by simp
    then obtain base where b: "calculate_price mc ?m t l ov pm a q inc = Inr base" ..
    from pos q have "q \<noteq> 0" by auto
    from price_for_quantity_returns[OF this b] show ?thesis .
  qed
  then have "\<forall>q\<in>set qs. \<exists>r. ?body q = Inr r" by blast
  from quantities_loop_returns[OF this, of Map.empty] show ?thesis
    unfolding calculate_multi_quantity_prices_def Let_def .
qed

section \<open>Properties of the single-quantity engine\<close>

text \<open>
  Claim C1. Whenever \<^verbatim>\<open>calculate_price\<close> returns a record whose \<open>price_per_piece\<close> is
  positive, the six percentage fields for machine, labor, material, additional material,
  overhead and profit add up to exactly 100. The seventh percentage, \<open>base_cost_percentage\<close>,
  is not a summand.
\<close>

theorem percentages_sum_to_100:
  assumes ret: "calculate_price mc mat t l ov pm a b inc = Inr r" and pos: "0 < price_per_piece r"
  shows "machine_cost_percentage r + labor_cost_percentage r + material_cost_percentage r
       + additional_material_cost_percentage r + overhead_cost_percentage r + profit_percentage r = 100"
proof -
  define h where "h = t / 60"
  define m where "m = mc * h"
  define lab where "lab = (if inc then l * h else 0)"
  define d where "d = m + lab + mat + a"
  define oc where "oc = d * (ov / 100)"
  define bs where "bs = d + oc"
  define pr where "pr = bs * (pm / 100)"
  define P where "P = bs + pr"
  note defs = h_def m_def lab_def d_def oc_def bs_def pr_def P_def
  have nz: "P \<noteq> 0"
    using ret unfolding calculate_price_unfold Let_def defs by (simp split: if_splits)
  have r: "r = \<lparr> machine_cost_per_piece = m, labor_cost_per_piece = lab,
                material_cost_per_piece = mat, additional_material_cost = a,
                direct_cost_per_piece = d, overhead_cost_per_piece = oc,
                base_cost_per_piece = bs, profit_per_piece = pr,
                price_per_piece = P, total_batch_cost = P * of_int b,
                machine_cost_percentage = m / P * 100,
                material_cost_percentage = mat / P * 100,
                additional_material_cost_percentage = a / P * 100,
                labor_cost_percentage = lab / P * 100,
                overhead_cost_percentage = oc / P * 100,
                base_cost_percentage = bs / P * 100,
                profit_percentage = pr / P * 100 \<rparr>"
    using ret unfolding calculate_price_unfold Let_def defs by (simp split: if_splits)
  have "m + lab + mat + a + oc + pr = P"
    unfolding P_def bs_def d_def by simp
  from share_sum[OF nz this] show ?thesis
    unfolding r by simp
qed

text \<open>The same at machine cost 60, material cost 2, six minutes and a batch of three.\<close>

theorem percentages_sum_to_100_witness:
  "(let r = \<lparr> machine_cost_per_piece = 6, labor_cost_per_piece = 0,
                material_cost_per_piece = 2, additional_material_cost = 0,
                direct_cost_per_piece = 8, overhead_cost_per_piece = 8 / 5,
                base_cost_per_piece = 48 / 5, profit_per_piece = 12 / 5,
                price_per_piece = 12, total_batch_cost = 36,
                machine_cost_percentage = 50, material_cost_percentage = 50 / 3,
                additional_material_cost_percentage = 0, labor_cost_percentage = 0,
                overhead_cost_percentage = 40 / 3, base_cost_percentage = 80,
                profit_percentage = 20 \<rparr>
    in calculate_price 60 2 6 0 20 25 0 3 False = Inr r \<and> 0 < price_per_piece r
     \<and> machine_cost_percentage r + labor_cost_percentage r + material_cost_percentage r
       + additional_material_cost_percentage r + overhead_cost_percentage r + profit_percentage r = 100)"
proof -
  define r :: calc_result where "r = \<lparr> machine_cost_per_piece = 6, labor_cost_per_piece = 0,
                material_cost_per_piece = 2, additional_material_cost = 0,
                direct_cost_per_piece = 8, overhead_cost_per_piece = 8 / 5,
                base_cost_per_piece = 48 / 5, profit_per_piece = 12 / 5,
                price_per_piece = 12, total_batch_cost = 36,
                machine_cost_percentage = 50, material_cost_percentage = 50 / 3,
                additional_material_cost_percentage = 0, labor_cost_percentage = 0,
                overhead_cost_percentage = 40 / 3, base_cost_percentage = 80,
                profit_percentage = 20 \<rparr>"
  have ret: "calculate_price 60 2 6 0 20 25 0 3 False = Inr r"
    unfolding r_def by (simp add: calculate_price_unfold)
  have pos: "0 < price_per_piece r" unfolding r_def by simp
  from percentages_sum_to_100[OF ret pos] ret pos show ?thesis
    unfolding Let_def r_def by simp
qed

text \<open>
  Claim C2. The claim is that no input accepted by the validator makes
  \<^verbatim>\<open>calculate_price\<close> raise. At machine cost 0, material cost 0, additional material
  cost 0 and a production time of six minutes the validator accepts, the price per piece is
  0, and the first percentage division raises \<^verbatim>\<open>ZeroDivisionError\<close>. By
  \<open>valid_input_raises_iff\<close> the accepted inputs on which the call raises are exactly those
  whose costs are all zero.
\<close>

theorem zero_cost_input_raises:
  "validate_inputs 0 0 6 0 20 25 1 = (True, ''Inputs valid'')
   \<and> calculate_price 0 0 6 0 20 25 0 1 False = Inl ZeroDivisionError"
  by (simp add: validate_inputs_def calculate_price_unfold)

text \<open>
  Claim C7. At machine cost 60 per hour, material cost 2, six minutes per piece, overhead
  20, profit margin 25, no additional material, batch size 1 and labor not included, the
  machine cost per piece is 6, the direct cost 8, the overhead 1.6, the base cost 9.6, the
  profit 2.4 and the price per piece 12.
\<close>

theorem end_to_end_single_quantity:
  "calculate_price 60 2 6 0 20 25 0 1 False =
     Inr \<lparr> machine_cost_per_piece = 6, labor_cost_per_piece = 0,
           material_cost_per_piece = 2, additional_material_cost = 0,
           direct_cost_per_piece = 8, overhead_cost_per_piece = 16 / 10,
           base_cost_per_piece = 96 / 10, profit_per_piece = 24 / 10,
           price_per_piece = 12, total_batch_cost = 12,
           machine_cost_percentage = 50, material_cost_percentage = 50 / 3,
           additional_material_cost_percentage = 0, labor_cost_percentage = 0,
           overhead_cost_percentage = 40 / 3, base_cost_percentage = 80,
           profit_percentage = 20 \<rparr>"
  by (simp add: calculate_price_unfold)

text \<open>
  Claim C8. Two runs that differ only in the batch size either both raise, or return
  records that agree in every field except \<open>total_batch_cost\<close>; in each run
  \<open>total_batch_cost\<close> is \<open>price_per_piece\<close> times the batch size of that run.
\<close>

theorem batch_size_only_total_batch_cost:
  "(case calculate_price mc mat t l ov pm a b1 inc of
      Inl e \<Rightarrow> calculate_price mc mat t l ov pm a b2 inc = Inl e
    | Inr r1 \<Rightarrow>
        total_batch_cost r1 = price_per_piece r1 * of_int b1
        \<and> calculate_price mc mat t l ov pm a b2 inc
            = Inr (r1\<lparr>total_batch_cost := price_per_piece r1 * of_int b2\<rparr>))"
  unfolding calculate_price_unfold Let_def by simp


section \<open>Properties of the multi-quantity engine\<close>

text \<open>
  Claim C3. In every entry the engine returns, the applied discount is the discount of the
  qualifying tier with the highest threshold: if a tier \<open>(th, d)\<close> has \<open>th \<le> q\<close> and no
  qualifying tier has a larger threshold, the entry for \<open>q\<close> records \<open>d\<close>. If no tier
  qualifies, which includes an empty or absent tier dictionary, the applied discount is 0
  and the discounted material cost is the material cost itself. For the tiers
  \<open>{10: 5, 50: 10, 100: 15}\<close> and quantity 75 the applied discount is 10. The tiers are the
  items of a dictionary, so their keys are distinct.
\<close>

theorem discount_resolution:
  assumes "calculate_multi_quantity_prices mc mat t st qs rate tiers ov pm a inc l = Inr res"
    and "res q = Some r"
  shows "(distinct (map fst (case tiers of None \<Rightarrow> [] | Some ts \<Rightarrow> ts))
          \<and> (th, d) \<in> set (case tiers of None \<Rightarrow> [] | Some ts \<Rightarrow> ts) \<and> th \<le> q
          \<and> (\<forall>td\<in>set (case tiers of None \<Rightarrow> [] | Some ts \<Rightarrow> ts). fst td \<le> q \<longrightarrow> fst td \<le> th)
          \<longrightarrow> material_discount_percentage r = d)
       \<and> ((\<forall>td\<in>set (case tiers of None \<Rightarrow> [] | Some ts \<Rightarrow> ts). q < fst td)
          \<longrightarrow> material_discount_percentage r = 0 \<and> discounted_material_cost r = mat)
       \<and> applied_discount [(10, 5), (50, 10), (100, 15)] 75 = 10
       \<and> calculate_multi_quantity_prices 60 10 6 0 [75] None (Some [(10, 5), (50, 10), (100, 15)])
           0 0 0 False 0
         = Inr (Map.empty(75 \<mapsto>
             \<lparr> qty_price_per_piece = 15, qty_total_cost = 1125,
               setup_cost_per_piece = 0, material_discount_percentage = 10,
               discounted_material_cost = 9,
               base_result =
                 \<lparr> machine_cost_per_piece = 6, labor_cost_per_piece = 0,
                   material_cost_per_piece = 9, additional_material_cost = 0,
                   direct_cost_per_piece = 15, overhead_cost_per_piece = 0,
                   base_cost_per_piece = 15, profit_per_piece = 0,
                   price_per_piece = 15, total_batch_cost = 1125,
                   machine_cost_percentage = 40, material_cost_percentage = 60,
                   additional_material_cost_percentage = 0,
                   labor_cost_percentage = 0, overhead_cost_percentage = 0,
                   base_cost_percentage = 100, profit_percentage = 0 \<rparr> \<rparr>))"
proof -
  let ?ts = "case tiers of None \<Rightarrow> [] | Some ts \<Rightarrow> ts"
  from multi_quantity_entry(3)[OF assms]
  have e: "price_for_quantity mc mat t st (case rate of None \<Rightarrow> mc | Some s \<Rightarrow> s)
            ?ts ov pm a inc l q = Inr r" .
  note pct = price_for_quantity_Inr(3)[OF e] and cost = price_for_quantity_Inr(4)[OF e]
  have high: "material_discount_percentage r = d"
    if "distinct (map fst ?ts) \<and> (th, d) \<in> set ?ts \<and> th \<le> q
          \<and> (\<forall>td\<in>set ?ts. fst td \<le> q \<longrightarrow> fst td \<le> th)"
    using that pct applied_discount_highest[of ?ts th d q] by simp
  have none: "material_discount_percentage r = 0 \<and> discounted_material_cost r = mat"
    if "\<forall>td\<in>set ?ts. q < fst td"
    using applied_discount_none[OF that] pct cost by simp
  have ex: "applied_discount [(10, 5), (50, 10), (100, 15)] 75 = 10"
    by (simp add: applied_discount_def)
  have run: "calculate_multi_quantity_prices 60 10 6 0 [75] None (Some [(10, 5), (50, 10), (100, 15)])
           0 0 0 False 0
         = Inr (Map.empty(75 \<mapsto>
             \<lparr> qty_price_per_piece = 15, qty_total_cost = 1125,
               setup_cost_per_piece = 0, material_discount_percentage = 10,
               discounted_material_cost = 9,
               base_result =
                 \<lparr> machine_cost_per_piece = 6, labor_cost_per_piece = 0,
                   material_cost_per_piece = 9, additional_material_cost = 0,
                   direct_cost_per_piece = 15, overhead_cost_per_piece = 0,
                   base_cost_per_piece = 15, profit_per_piece = 0,
                   price_per_piece = 15, total_batch_cost = 1125,
                   machine_cost_percentage = 40, material_cost_percentage = 60,
                   additional_material_cost_percentage = 0,
                   labor_cost_percentage = 0, overhead_cost_percentage = 0,
                   base_cost_percentage = 100, profit_percentage = 0 \<rparr> \<rparr>))"
    by (simp add: engine_eval)
  from high none ex run show ?thesis by blast
qed

text \<open>
  A run with the tiers \<open>{20: 75, 5: 25, 10: 50}\<close>, in that insertion order, and quantity
  10: the tier at threshold 10 is the highest that qualifies.
\<close>

theorem discount_resolution_witness:
  "(let r = \<lparr> qty_price_per_piece = 13, qty_total_cost = 130,
        setup_cost_per_piece = 3, material_discount_percentage = 50,
        discounted_material_cost = 4,
        base_result =
          \<lparr> machine_cost_per_piece = 6, labor_cost_per_piece = 0,
             material_cost_per_piece = 4, additional_material_cost = 0,
             direct_cost_per_piece = 10, overhead_cost_per_piece = 0,
             base_cost_per_piece = 10, profit_per_piece = 0,
             price_per_piece = 10, total_batch_cost = 100,
             machine_cost_percentage = 60, material_cost_percentage = 40,
             additional_material_cost_percentage = 0,
             labor_cost_percentage = 0, overhead_cost_percentage = 0,
             base_cost_percentage = 100, profit_percentage = 0 \<rparr> \<rparr>;
        tiers = [(20, 75), (5, 25), (10, 50)]
    in calculate_multi_quantity_prices 60 8 6 30 [10] None (Some tiers) 0 0 0 False 0
         = Inr (Map.empty(10 \<mapsto> r))
       \<and> distinct (map fst tiers) \<and> (10, 50) \<in> set tiers \<and> (10::int) \<le> 10
       \<and> (\<forall>td\<in>set tiers. fst td \<le> 10 \<longrightarrow> fst td \<le> 10)
       \<and> material_discount_percentage r = 50)"
proof -
  define r where "r = \<lparr> qty_price_per_piece = 13, qty_total_cost = 130,
        setup_cost_per_piece = 3, material_discount_percentage = 50,
        discounted_material_cost = 4,
        base_result =
          \<lparr> machine_cost_per_piece = 6, labor_cost_per_piece = 0,
             material_cost_per_piece = 4, additional_material_cost = 0,
             direct_cost_per_piece = 10, overhead_cost_per_piece = 0,
             base_cost_per_piece = 10, profit_per_piece = 0,
             price_per_piece = 10, total_batch_cost = 100,
             machine_cost_percentage = 60, material_cost_percentage = 40,
             additional_material_cost_percentage = 0,
             labor_cost_percentage = 0, overhead_cost_percentage = 0,
             base_cost_percentage = 100, profit_percentage = (0::rat) \<rparr> \<rparr>"
  have run: "calculate_multi_quantity_prices 60 8 6 30 [10] None (Some [(20, 75), (5, 25), (10, 50)])
               0 0 0 False 0 = Inr (Map.empty(10 \<mapsto> r))"
    unfolding r_def by (simp add: engine_eval)
  have entry: "(Map.empty(10 \<mapsto> r)) (10::int) = Some r" by simp
  from discount_resolution[OF run entry, of 10 50] run show ?thesis
    unfolding Let_def r_def by simp
qed

text \<open>
  Claim C4, as the spec states it: for quantities \<open>q1 < q2\<close> the setup cost per piece at
  \<open>q2\<close> is strictly smaller than at \<open>q1\<close>, also when the setup cost is zero. With a
  setup time of 0 minutes the setup cost per piece is 0 at quantity 1 and at quantity 2.
\<close>

theorem setup_cost_per_piece_zero_not_decreasing:
  "calculate_multi_quantity_prices 60 2 6 0 [1, 2] None None 20 25 0 False 0
     = Inr (Map.empty
         (1 \<mapsto> \<lparr> qty_price_per_piece = 12, qty_total_cost = 12,
                 setup_cost_per_piece = 0, material_discount_percentage = 0,
                 discounted_material_cost = 2,
                 base_result =
                   \<lparr> machine_cost_per_piece = 6, labor_cost_per_piece = 0,
                     material_cost_per_piece = 2, additional_material_cost = 0,
                     direct_cost_per_piece = 8, overhead_cost_per_piece = 8 / 5,
                     base_cost_per_piece = 48 / 5, profit_per_piece = 12 / 5,
                     price_per_piece = 12, total_batch_cost = 12,
                     machine_cost_percentage = 50, material_cost_percentage = 50 / 3,
                     additional_material_cost_percentage = 0,
                     labor_cost_percentage = 0, overhead_cost_percentage = 40 / 3,
                     base_cost_percentage = 80, profit_percentage = 20 \<rparr> \<rparr>,
          2 \<mapsto> \<lparr> qty_price_per_piece = 12, qty_total_cost = 24,
                 setup_cost_per_piece = 0, material_discount_percentage = 0,
                 discounted_material_cost = 2,
                 base_result =
                   \<lparr> machine_cost_per_piece = 6, labor_cost_per_piece = 0,
                     material_cost_per_piece = 2, additional_material_cost = 0,
                     direct_cost_per_piece = 8, overhead_cost_per_piece = 8 / 5,
                     base_cost_per_piece = 48 / 5, profit_per_piece = 12 / 5,
                     price_per_piece = 12, total_batch_cost = 24,
                     machine_cost_percentage = 50, material_cost_percentage = 50 / 3,
                     additional_material_cost_percentage = 0,
                     labor_cost_percentage = 0, overhead_cost_percentage = 40 / 3,
                     base_cost_percentage = 80, profit_percentage = 20 \<rparr> \<rparr>))
   \<and> \<not> (setup_cost_per_piece
            (the (projr (calculate_multi_quantity_prices 60 2 6 0 [1, 2] None None 20 25 0 False 0) 2))
          < setup_cost_per_piece
            (the (projr (calculate_multi_quantity_prices 60 2 6 0 [1, 2] None None 20 25 0 False 0) 1)))"
  by (simp add: engine_eval)

text \<open>
  Claim C4, amended. For positive quantities \<open>q1 < q2\<close> and all other inputs equal, the
  setup cost per piece at \<open>q2\<close> is strictly smaller than at \<open>q1\<close> whenever the setup cost
  (setup rate times setup hours) is positive; when the setup cost is zero both are 0.
\<close>

theorem setup_cost_per_piece_decreasing:
  assumes "calculate_multi_quantity_prices mc mat t st qs1 rate tiers ov pm a inc l = Inr res1"
    and "res1 q1 = Some r1"
    and "calculate_multi_quantity_prices mc mat t st qs2 rate tiers ov pm a inc l = Inr res2"
    and "res2 q2 = Some r2"
    and "0 < q1" and "q1 < q2"
  shows "(0 < setup_cost (case rate of None \<Rightarrow> mc | Some s \<Rightarrow> s) st
            \<longrightarrow> setup_cost_per_piece r2 < setup_cost_per_piece r1)
       \<and> (setup_cost (case rate of None \<Rightarrow> mc | Some s \<Rightarrow> s) st = 0
            \<longrightarrow> setup_cost_per_piece r2 = 0 \<and> setup_cost_per_piece r1 = 0)"
proof -
  let ?S = "setup_cost (case rate of None \<Rightarrow> mc | Some s \<Rightarrow> s) st"
  have s1: "setup_cost_per_piece r1 = ?S / of_int q1"
    by (rule price_for_quantity_Inr(2)[OF multi_quantity_entry(3)[OF assms(1,2)]])
  have s2: "setup_cost_per_piece r2 = ?S / of_int q2"
    by (rule price_for_quantity_Inr(2)[OF multi_quantity_entry(3)[OF assms(3,4)]])
  have q: "(0::rat) < of_int q1" "(of_int q1 :: rat) < of_int q2"
    using assms(5,6) by simp_all
  have "?S / of_int q2 < ?S / of_int q1" if "0 < ?S"
    using that q by (intro divide_strict_left_mono) (auto intro: mult_pos_pos)
  then show ?thesis using s1 s2 by simp
qed

text \<open>
  Quantities 1 and 2 with a setup of 30 minutes at 60 per hour: 30 per piece against 15.
\<close>

theorem setup_cost_per_piece_decreasing_witness:
  "(let r1 = \<lparr> qty_price_per_piece = 42, qty_total_cost = 42,
                setup_cost_per_piece = 30, material_discount_percentage = 0,
                discounted_material_cost = 2,
                base_result =
                  \<lparr> machine_cost_per_piece = 6, labor_cost_per_piece = 0,
                    material_cost_per_piece = 2, additional_material_cost = 0,
                    direct_cost_per_piece = 8, overhead_cost_per_piece = 8 / 5,
                    base_cost_per_piece = 48 / 5, profit_per_piece = 12 / 5,
                    price_per_piece = 12, total_batch_cost = 12,
                    machine_cost_percentage = 50, material_cost_percentage = 50 / 3,
                    additional_material_cost_percentage = 0,
                    labor_cost_percentage = 0, overhead_cost_percentage = 40 / 3,
                    base_cost_percentage = 80, profit_percentage = 20 \<rparr> \<rparr>;
        r2 = \<lparr> qty_price_per_piece = 27, qty_total_cost = 54,
                setup_cost_per_piece = 15, material_discount_percentage = 0,
                discounted_material_cost = 2,
                base_result =
                  \<lparr> machine_cost_per_piece = 6, labor_cost_per_piece = 0,
                    material_cost_per_piece = 2, additional_material_cost = 0,
                    direct_cost_per_piece = 8, overhead_cost_per_piece = 8 / 5,
                    base_cost_per_piece = 48 / 5, profit_per_piece = 12 / 5,
                    price_per_piece = 12, total_batch_cost = 24,
                    machine_cost_percentage = 50, material_cost_percentage = 50 / 3,
                    additional_material_cost_percentage = 0,
                    labor_cost_percentage = 0, overhead_cost_percentage = 40 / 3,
                    base_cost_percentage = 80, profit_percentage = 20 \<rparr> \<rparr>
    in calculate_multi_quantity_prices 60 2 6 30 [1] None None 20 25 0 False 0
         = Inr (Map.empty(1 \<mapsto> r1))
     \<and> calculate_multi_quantity_prices 60 2 6 30 [2] None None 20 25 0 False 0
         = Inr (Map.empty(2 \<mapsto> r2))
     \<and> (0::int) < 1 \<and> (1::int) < 2 \<and> 0 < setup_cost 60 30
     \<and> setup_cost_per_piece r2 < setup_cost_per_piece r1)"
proof -
  define r1 where "r1 = \<lparr> qty_price_per_piece = 42, qty_total_cost = 42,
                setup_cost_per_piece = 30, material_discount_percentage = 0,
                discounted_material_cost = 2,
                base_result =
                  \<lparr> machine_cost_per_piece = 6, labor_cost_per_piece = 0,
                    material_cost_per_piece = 2, additional_material_cost = 0,
                    direct_cost_per_piece = 8, overhead_cost_per_piece = 8 / 5,
                    base_cost_per_piece = 48 / 5, profit_per_piece = 12 / 5,
                    price_per_piece = 12, total_batch_cost = 12,
                    machine_cost_percentage = 50, material_cost_percentage = 50 / 3,
                    additional_material_cost_percentage = 0,
                    labor_cost_percentage = 0, overhead_cost_percentage = 40 / 3,
                    base_cost_percentage = 80, profit_percentage = (20::rat) \<rparr> \<rparr>"
  define r2 where "r2 = \<lparr> qty_price_per_piece = 27, qty_total_cost = 54,
                setup_cost_per_piece = 15, material_discount_percentage = 0,
                discounted_material_cost = 2,
                base_result =
                  \<lparr> machine_cost_per_piece = 6, labor_cost_per_piece = 0,
                    material_cost_per_piece = 2, additional_material_cost = 0,
                    direct_cost_per_piece = 8, overhead_cost_per_piece = 8 / 5,
                    base_cost_per_piece = 48 / 5, profit_per_piece = 12 / 5,
                    price_per_piece = 12, total_batch_cost = 24,
                    machine_cost_percentage = 50, material_cost_percentage = 50 / 3,
                    additional_material_cost_percentage = 0,
                    labor_cost_percentage = 0, overhead_cost_percentage = 40 / 3,
                    base_cost_percentage = 80, profit_percentage = (20::rat) \<rparr> \<rparr>"
  have run1: "calculate_multi_quantity_prices 60 2 6 30 [1] None None 20 25 0 False 0
         = Inr (Map.empty(1 \<mapsto> r1))"
    unfolding r1_def by (simp add: engine_eval)
  have run2: "calculate_multi_quantity_prices 60 2 6 30 [2] None None 20 25 0 False 0
         = Inr (Map.empty(2 \<mapsto> r2))"
    unfolding r2_def by (simp add: engine_eval)
  have e1: "(Map.empty(1 \<mapsto> r1)) (1::int) = Some r1" by simp
  have e2: "(Map.empty(2 \<mapsto> r2)) (2::int) = Some r2" by simp
  have pos: "0 < setup_cost 60 30" by (simp add: setup_cost_def)
  have "setup_cost_per_piece r2 < setup_cost_per_piece r1"
    using setup_cost_per_piece_decreasing[OF run1 e1 run2 e2] pos by simp
  with run1 run2 pos show ?thesis
    unfolding Let_def r1_def r2_def by simp
qed

text \<open>
  Claim C6. In every entry the engine returns, the price per piece is the single-quantity
  engine's price per piece, computed with the discounted material cost and batch size \<open>q\<close>,
  plus the setup cost per piece, and the total cost is that price times \<open>q\<close>. With machine
  cost 60, material cost 2, six minutes, overhead 20, profit 25, a setup of 30 minutes, no
  tiers and quantity 10, the setup cost is 30, the setup cost per piece 3, the price per
  piece 15 and the total cost 150.
\<close>

theorem multi_quantity_price_composition:
  "(calculate_multi_quantity_prices mc mat t st qs rate tiers ov pm a inc l = Inr res \<and> q \<in> set qs
      \<longrightarrow> (\<exists>r base. res q = Some r \<and> base_result r = base
            \<and> calculate_price mc (discounted_material_cost r) t l ov pm a q inc = Inr base
            \<and> setup_cost_per_piece r
                = setup_cost (case rate of None \<Rightarrow> mc | Some s \<Rightarrow> s) st / of_int q
            \<and> qty_price_per_piece r = price_per_piece base + setup_cost_per_piece r
            \<and> qty_total_cost r = qty_price_per_piece r * of_int q))
   \<and> setup_cost 60 30 = 30
   \<and> calculate_multi_quantity_prices 60 2 6 30 [10] None None 20 25 0 False 0
       = Inr (Map.empty(10 \<mapsto>
           \<lparr> qty_price_per_piece = 15, qty_total_cost = 150,
             setup_cost_per_piece = 3, material_discount_percentage = 0,
             discounted_material_cost = 2,
             base_result =
               \<lparr> machine_cost_per_piece = 6, labor_cost_per_piece = 0,
                 material_cost_per_piece = 2, additional_material_cost = 0,
                 direct_cost_per_piece = 8, overhead_cost_per_piece = 8 / 5,
                 base_cost_per_piece = 48 / 5, profit_per_piece = 12 / 5,
                 price_per_piece = 12, total_batch_cost = 120,
                 machine_cost_percentage = 50, material_cost_percentage = 50 / 3,
                 additional_material_cost_percentage = 0,
                 labor_cost_percentage = 0, overhead_cost_percentage = 40 / 3,
                 base_cost_percentage = 80, profit_percentage = 20 \<rparr> \<rparr>))"
proof (intro conjI impI)
  assume h: "calculate_multi_quantity_prices mc mat t st qs rate tiers ov pm a inc l = Inr res \<and> q \<in> set qs"
  then have run: "calculate_multi_quantity_prices mc mat t st qs rate tiers ov pm a inc l = Inr res"
    and mem: "q \<in> set qs" by simp_all
  from multi_quantity_entry(1)[OF run mem] obtain r where r: "res q = Some r" by blast
  note e = multi_quantity_entry(3)[OF run r]
  note f = price_for_quantity_Inr[OF e]
  from r f(2,5,6,7)
  show "\<exists>r base. res q = Some r \<and> base_result r = base
            \<and> calculate_price mc (discounted_material_cost r) t l ov pm a q inc = Inr base
            \<and> setup_cost_per_piece r
                = setup_cost (case rate of None \<Rightarrow> mc | Some s \<Rightarrow> s) st / of_int q
            \<and> qty_price_per_piece r = price_per_piece base + setup_cost_per_piece r
            \<and> qty_total_cost r = qty_price_per_piece r * of_int q"
    by blast
next
  show "setup_cost 60 30 = 30" by (simp add: setup_cost_def)
next
  show "calculate_multi_quantity_prices 60 2 6 30 [10] None None 20 25 0 False 0
       = Inr (Map.empty(10 \<mapsto>
           \<lparr> qty_price_per_piece = 15, qty_total_cost = 150,
             setup_cost_per_piece = 3, material_discount_percentage = 0,
             discounted_material_cost = 2,
             base_result =
               \<lparr> machine_cost_per_piece = 6, labor_cost_per_piece = 0,
                 material_cost_per_piece = 2, additional_material_cost = 0,
                 direct_cost_per_piece = 8, overhead_cost_per_piece = 8 / 5,
                 base_cost_per_piece = 48 / 5, profit_per_piece = 12 / 5,
                 price_per_piece = 12, total_batch_cost = 120,
                 machine_cost_percentage = 50, material_cost_percentage = 50 / 3,
                 additional_material_cost_percentage = 0,
                 labor_cost_percentage = 0, overhead_cost_percentage = 40 / 3,
                 base_cost_percentage = 80, profit_percentage = 20 \<rparr> \<rparr>))"
    by (simp add: engine_eval)
qed

text \<open>
  The general statement at the run of the example.
\<close>

theorem multi_quantity_price_composition_witness:
  "(let r = \<lparr> qty_price_per_piece = 15, qty_total_cost = 150,
             setup_cost_per_piece = 3, material_discount_percentage = 0,
             discounted_material_cost = 2,
             base_result =
               \<lparr> machine_cost_per_piece = 6, labor_cost_per_piece = 0,
                 material_cost_per_piece = 2, additional_material_cost = 0,
                 direct_cost_per_piece = 8, overhead_cost_per_piece = 8 / 5,
                 base_cost_per_piece = 48 / 5, profit_per_piece = 12 / 5,
                 price_per_piece = 12, total_batch_cost = 120,
                 machine_cost_percentage = 50, material_cost_percentage = 50 / 3,
                 additional_material_cost_percentage = 0,
                 labor_cost_percentage = 0, overhead_cost_percentage = 40 / 3,
                 base_cost_percentage = 80, profit_percentage = 20 \<rparr> \<rparr>
    in calculate_multi_quantity_prices 60 2 6 30 [10] None None 20 25 0 False 0
         = Inr (Map.empty(10 \<mapsto> r))
     \<and> (10::int) \<in> set [10]
     \<and> calculate_price 60 (discounted_material_cost r) 6 0 20 25 0 10 False = Inr (base_result r)
     \<and> setup_cost_per_piece r = setup_cost 60 30 / 10
     \<and> qty_price_per_piece r = price_per_piece (base_result r) + setup_cost_per_piece r
     \<and> qty_total_cost r = qty_price_per_piece r * 10)"
proof -
  define r where "r = \<lparr> qty_price_per_piece = 15, qty_total_cost = 150,
             setup_cost_per_piece = 3, material_discount_percentage = 0,
             discounted_material_cost = 2,
             base_result =
               \<lparr> machine_cost_per_piece = 6, labor_cost_per_piece = 0,
                 material_cost_per_piece = 2, additional_material_cost = 0,
                 direct_cost_per_piece = 8, overhead_cost_per_piece = 8 / 5,
                 base_cost_per_piece = 48 / 5, profit_per_piece = 12 / 5,
                 price_per_piece = 12, total_batch_cost = 120,
                 machine_cost_percentage = 50, material_cost_percentage = 50 / 3,
                 additional_material_cost_percentage = 0,
                 labor_cost_percentage = 0, overhead_cost_percentage = 40 / 3,
                 base_cost_percentage = 80, profit_percentage = (20::rat) \<rparr> \<rparr>"
  have run: "calculate_multi_quantity_prices 60 2 6 30 [10] None None 20 25 0 False 0
         = Inr (Map.empty(10 \<mapsto> r))"
    unfolding r_def by (simp add: engine_eval)
  have mem: "(10::int) \<in> set [10]" by simp
  from multi_quantity_price_composition[of 60 2 6 30 "[10]" None None 20 25 0 False 0
      "Map.empty(10 \<mapsto> r)" 10] run mem
  have "calculate_price 60 (discounted_material_cost r) 6 0 20 25 0 10 False = Inr (base_result r)
     \<and> setup_cost_per_piece r = setup_cost 60 30 / 10
     \<and> qty_price_per_piece r = price_per_piece (base_result r) + setup_cost_per_piece r
     \<and> qty_total_cost r = qty_price_per_piece r * 10"
    by auto
  with run show ?thesis unfolding Let_def r_def by simp
qed

text \<open>
  Claim C10. For a list of positive quantities the call returns exactly when the call for
  each single quantity of the list returns. The dictionary it returns has the quantities of
  the list as its keys, and the entry under \<open>q\<close> is the entry of the call with \<open>[q]\<close> alone;
  a quantity listed twice has one entry. The call does return when the machine cost and
  the production time are positive, the other costs and the percentages are not negative
  and no discount exceeds 100.
\<close>

theorem quantities_pointwise:
  assumes "\<forall>q\<in>set qs. 0 < q"
  shows "((\<exists>res. calculate_multi_quantity_prices mc mat t st qs rate tiers ov pm a inc l = Inr res)
          \<longleftrightarrow> (\<forall>q\<in>set qs. \<exists>res1.
                 calculate_multi_quantity_prices mc mat t st [q] rate tiers ov pm a inc l = Inr res1))
       \<and> (\<forall>res. calculate_multi_quantity_prices mc mat t st qs rate tiers ov pm a inc l = Inr res
            \<longrightarrow> dom res = set qs
              \<and> (\<forall>q\<in>set qs. \<exists>r. res q = Some r
                    \<and> calculate_multi_quantity_prices mc mat t st [q] rate tiers ov pm a inc l
                        = Inr (Map.empty(q \<mapsto> r))))
       \<and> (0 < mc \<and> 0 \<le> mat \<and> 0 < t \<and> 0 \<le> l \<and> 0 \<le> ov \<and> 0 \<le> pm \<and> 0 \<le> a
            \<and> (\<forall>td\<in>set (case tiers of None \<Rightarrow> [] | Some ts \<Rightarrow> ts). snd td \<le> 100)
          \<longrightarrow> (\<exists>res. calculate_multi_quantity_prices mc mat t st qs rate tiers ov pm a inc l
                      = Inr res))"
proof -
  let ?body = "price_for_quantity mc mat t st (case rate of None \<Rightarrow> mc | Some s \<Rightarrow> s)
            (case tiers of None \<Rightarrow> [] | Some ts \<Rightarrow> ts) ov pm a inc l"
  have multi: "calculate_multi_quantity_prices mc mat t st xs rate tiers ov pm a inc l
      = quantities_loop ?body xs Map.empty" for xs
    unfolding calculate_multi_quantity_prices_def Let_def ..
  have single: "calculate_multi_quantity_prices mc mat t st [q] rate tiers ov pm a inc l
      = (case ?body q of Inl e \<Rightarrow> Inl e | Inr r \<Rightarrow> Inr (Map.empty(q \<mapsto> r)))" for q
    unfolding multi by (simp split: sum.splits)
  have returns_iff: "(\<exists>res. quantities_loop ?body qs Map.empty = Inr res)
      \<longleftrightarrow> (\<forall>q\<in>set qs. \<exists>r. ?body q = Inr r)"
    using quantities_loop_result[of ?body qs Map.empty] quantities_loop_returns[of qs ?body Map.empty]
    by blast
  have single_returns: "(\<exists>res1. calculate_multi_quantity_prices mc mat t st [q] rate tiers ov pm a inc l = Inr res1)
      \<longleftrightarrow> (\<exists>r. ?body q = Inr r)" for q
    unfolding single by (cases "?body q") auto
  have part1: "(\<exists>res. calculate_multi_quantity_prices mc mat t st qs rate tiers ov pm a inc l = Inr res)
          \<longleftrightarrow> (\<forall>q\<in>set qs. \<exists>res1.
                 calculate_multi_quantity_prices mc mat t st [q] rate tiers ov pm a inc l = Inr res1)"
    unfolding single_returns unfolding multi by (rule returns_iff)
  have part2: "dom res = set qs
              \<and> (\<forall>q\<in>set qs. \<exists>r. res q = Some r
                    \<and> calculate_multi_quantity_prices mc mat t st [q] rate tiers ov pm a inc l
                        = Inr (Map.empty(q \<mapsto> r)))"
    if run: "calculate_multi_quantity_prices mc mat t st qs rate tiers ov pm a inc l = Inr res" for res
  proof
    from run have loop: "quantities_loop ?body qs Map.empty = Inr res" unfolding multi .
    from quantities_loop_dom[OF loop] show "dom res = set qs" by simp
    show "\<forall>q\<in>set qs. \<exists>r. res q = Some r
                    \<and> calculate_multi_quantity_prices mc mat t st [q] rate tiers ov pm a inc l
                        = Inr (Map.empty(q \<mapsto> r))"
    proof
      fix q assume "q \<in> set qs"
      with quantities_loop_result[OF loop, of q] obtain r
        where "?body q = Inr r" "res q = Some r" by blast
      then show "\<exists>r. res q = Some r
                    \<and> calculate_multi_quantity_prices mc mat t st [q] rate tiers ov pm a inc l
                        = Inr (Map.empty(q \<mapsto> r))"
        unfolding single by simp
    qed
  qed
  have part3: "\<exists>res. calculate_multi_quantity_prices mc mat t st qs rate tiers ov pm a inc l = Inr res"
    if "0 < mc \<and> 0 \<le> mat \<and> 0 < t \<and> 0 \<le> l \<and> 0 \<le> ov \<and> 0 \<le> pm \<and> 0 \<le> a
            \<and> (\<forall>td\<in>set (case tiers of None \<Rightarrow> [] | Some ts \<Rightarrow> ts). snd td \<le> 100)"
    using that assms by (intro multi_quantity_returns) simp_all
  from part1 part2 part3 show ?thesis by blast
qed

text \<open>
  The list \<open>[2, 1, 2]\<close>: two keys, each with the entry of its own call.
\<close>

theorem quantities_pointwise_witness:
  "(let r1 = \<lparr> qty_price_per_piece = 42, qty_total_cost = 42,
                setup_cost_per_piece = 30, material_discount_percentage = 0,
                discounted_material_cost = 2,
                base_result =
                  \<lparr> machine_cost_per_piece = 6, labor_cost_per_piece = 0,
                    material_cost_per_piece = 2, additional_material_cost = 0,
                    direct_cost_per_piece = 8, overhead_cost_per_piece = 8 / 5,
                    base_cost_per_piece = 48 / 5, profit_per_piece = 12 / 5,
                    price_per_piece = 12, total_batch_cost = 12,
                    machine_cost_percentage = 50, material_cost_percentage = 50 / 3,
                    additional_material_cost_percentage = 0,
                    labor_cost_percentage = 0, overhead_cost_percentage = 40 / 3,
                    base_cost_percentage = 80, profit_percentage = 20 \<rparr> \<rparr>;
        r2 = \<lparr> qty_price_per_piece = 27, qty_total_cost = 54,
                setup_cost_per_piece = 15, material_discount_percentage = 0,
                discounted_material_cost = 2,
                base_result =
                  \<lparr> machine_cost_per_piece = 6, labor_cost_per_piece = 0,
                    material_cost_per_piece = 2, additional_material_cost = 0,
                    direct_cost_per_piece = 8, overhead_cost_per_piece = 8 / 5,
                    base_cost_per_piece = 48 / 5, profit_per_piece = 12 / 5,
                    price_per_piece = 12, total_batch_cost = 24,
                    machine_cost_percentage = 50, material_cost_percentage = 50 / 3,
                    additional_material_cost_percentage = 0,
                    labor_cost_percentage = 0, overhead_cost_percentage = 40 / 3,
                    base_cost_percentage = 80, profit_percentage = 20 \<rparr> \<rparr>
    in (\<forall>q\<in>set [2, 1, 2]. (0::int) < q)
     \<and> (0::rat) < 60 \<and> (0::rat) \<le> 2 \<and> (0::rat) < 6 \<and> (0::rat) \<le> 0 \<and> (0::rat) \<le> 20
     \<and> (0::rat) \<le> 25 \<and> (\<forall>td\<in>set ([] :: (int \<times> rat) list). snd td \<le> 100)
     \<and> calculate_multi_quantity_prices 60 2 6 30 [2, 1, 2] None None 20 25 0 False 0
         = Inr (Map.empty(2 \<mapsto> r2, 1 \<mapsto> r1, 2 \<mapsto> r2))
     \<and> dom (Map.empty(2 \<mapsto> r2, 1 \<mapsto> r1, 2 \<mapsto> r2)) = set [2, 1, 2::int]
     \<and> calculate_multi_quantity_prices 60 2 6 30 [1] None None 20 25 0 False 0
         = Inr (Map.empty(1 \<mapsto> r1))
     \<and> calculate_multi_quantity_prices 60 2 6 30 [2] None None 20 25 0 False 0
         = Inr (Map.empty(2 \<mapsto> r2)))"
proof -
  define r1 where "r1 = \<lparr> qty_price_per_piece = 42, qty_total_cost = 42,
                setup_cost_per_piece = 30, material_discount_percentage = 0,
                discounted_material_cost = 2,
                base_result =
                  \<lparr> machine_cost_per_piece = 6, labor_cost_per_piece = 0,
                    material_cost_per_piece = 2, additional_material_cost = 0,
                    direct_cost_per_piece = 8, overhead_cost_per_piece = 8 / 5,
                    base_cost_per_piece = 48 / 5, profit_per_piece = 12 / 5,
                    price_per_piece = 12, total_batch_cost = 12,
                    machine_cost_percentage = 50, material_cost_percentage = 50 / 3,
                    additional_material_cost_percentage = 0,
                    labor_cost_percentage = 0, overhead_cost_percentage = 40 / 3,
                    base_cost_percentage = 80, profit_percentage = (20::rat) \<rparr> \<rparr>"
  define r2 where "r2 = \<lparr> qty_price_per_piece = 27, qty_total_cost = 54,
                setup_cost_per_piece = 15, material_discount_percentage = 0,
                discounted_material_cost = 2,
                base_result =
                  \<lparr> machine_cost_per_piece = 6, labor_cost_per_piece = 0,
                    material_cost_per_piece = 2, additional_material_cost = 0,
                    direct_cost_per_piece = 8, overhead_cost_per_piece = 8 / 5,
                    base_cost_per_piece = 48 / 5, profit_per_piece = 12 / 5,
                    price_per_piece = 12, total_batch_cost = 24,
                    machine_cost_percentage = 50, material_cost_percentage = 50 / 3,
                    additional_material_cost_percentage = 0,
                    labor_cost_percentage = 0, overhead_cost_percentage = 40 / 3,
                    base_cost_percentage = 80, profit_percentage = (20::rat) \<rparr> \<rparr>"
  have pos: "\<forall>q\<in>set [2, 1, 2]. (0::int) < q" by simp
  have run: "calculate_multi_quantity_prices 60 2 6 30 [2, 1, 2] None None 20 25 0 False 0
         = Inr (Map.empty(2 \<mapsto> r2, 1 \<mapsto> r1, 2 \<mapsto> r2))"
    unfolding r1_def r2_def by (simp add: engine_eval)
  from quantities_pointwise[OF pos, of 60 2 6 30 None None 20 25 0 False 0] run
  have all: "dom (Map.empty(2 \<mapsto> r2, 1 \<mapsto> r1, 2 \<mapsto> r2)) = set [2, 1, 2::int]
     \<and> (\<forall>q\<in>set [2, 1, 2]. \<exists>r. (Map.empty(2 \<mapsto> r2, 1 \<mapsto> r1, 2 \<mapsto> r2)) q = Some r
          \<and> calculate_multi_quantity_prices 60 2 6 30 [q] None None 20 25 0 False 0
              = Inr (Map.empty(q \<mapsto> r)))"
    by blast
  then have one: "calculate_multi_quantity_prices 60 2 6 30 [1] None None 20 25 0 False 0
         = Inr (Map.empty(1 \<mapsto> r1))"
    and two: "calculate_multi_quantity_prices 60 2 6 30 [2] None None 20 25 0 False 0
         = Inr (Map.empty(2 \<mapsto> r2))"
    by auto
  from pos run all one two show ?thesis
    unfolding Let_def r1_def r2_def by simp
qed

section \<open>Labor cost not included separately\<close>

text \<open>
  Claim C9. With \<^verbatim>\<open>include_labor_cost=False\<close> two calls of \<^verbatim>\<open>calculate_price\<close> that
  differ only in \<^verbatim>\<open>labor_cost_per_hour\<close> have the same outcome, a returned record has
  labor cost per piece 0 and labor percentage 0, and two such calls of
  \<^verbatim>\<open>calculate_multi_quantity_prices\<close> have the same outcome.
\<close>

theorem labor_rate_ignored:
  "calculate_price mc mat t l1 ov pm a b False = calculate_price mc mat t l2 ov pm a b False
   \<and> (\<forall>r. calculate_price mc mat t l1 ov pm a b False = Inr r
          \<longrightarrow> labor_cost_per_piece r = 0 \<and> labor_cost_percentage r = 0)
   \<and> calculate_multi_quantity_prices mc mat t st qs rate tiers ov pm a False l1
       = calculate_multi_quantity_prices mc mat t st qs rate tiers ov pm a False l2"
proof (intro conjI allI impI)
  show "calculate_price mc mat t l1 ov pm a b False = calculate_price mc mat t l2 ov pm a b False"
    unfolding calculate_price_unfold Let_def by simp
next
  fix r assume "calculate_price mc mat t l1 ov pm a b False = Inr r"
  then show "labor_cost_per_piece r = 0" "labor_cost_percentage r = 0"
    unfolding calculate_price_unfold Let_def by (auto split: if_splits)
next
  have "price_for_quantity mc mat t st (case rate of None \<Rightarrow> mc | Some s \<Rightarrow> s)
          (case tiers of None \<Rightarrow> [] | Some ts \<Rightarrow> ts) ov pm a False l1
      = price_for_quantity mc mat t st (case rate of None \<Rightarrow> mc | Some s \<Rightarrow> s)
          (case tiers of None \<Rightarrow> [] | Some ts \<Rightarrow> ts) ov pm a False l2"
    by (rule ext) (rule price_for_quantity_labor)
  then show "calculate_multi_quantity_prices mc mat t st qs rate tiers ov pm a False l1
       = calculate_multi_quantity_prices mc mat t st qs rate tiers ov pm a False l2"
    unfolding calculate_multi_quantity_prices_def Let_def by simp
qed

text \<open>
  Labor rates 45 and 7 at the input of the end-to-end example.
\<close>

theorem labor_rate_ignored_witness:
  "calculate_price 60 2 6 45 20 25 0 1 False
     = Inr \<lparr> machine_cost_per_piece = 6, labor_cost_per_piece = 0,
           material_cost_per_piece = 2, additional_material_cost = 0,
           direct_cost_per_piece = 8, overhead_cost_per_piece = 8 / 5,
           base_cost_per_piece = 48 / 5, profit_per_piece = 12 / 5,
           price_per_piece = 12, total_batch_cost = 12,
           machine_cost_percentage = 50, material_cost_percentage = 50 / 3,
           additional_material_cost_percentage = 0, labor_cost_percentage = 0,
           overhead_cost_percentage = 40 / 3, base_cost_percentage = 80,
           profit_percentage = 20 \<rparr>
   \<and> calculate_price 60 2 6 45 20 25 0 1 False = calculate_price 60 2 6 7 20 25 0 1 False"
proof -
  have run: "calculate_price 60 2 6 45 20 25 0 1 False
     = Inr \<lparr> machine_cost_per_piece = 6, labor_cost_per_piece = 0,
           material_cost_per_piece = 2, additional_material_cost = 0,
           direct_cost_per_piece = 8, overhead_cost_per_piece = 8 / 5,
           base_cost_per_piece = 48 / 5, profit_per_piece = 12 / 5,
           price_per_piece = 12, total_batch_cost = 12,
           machine_cost_percentage = 50, material_cost_percentage = 50 / 3,
           additional_material_cost_percentage = 0, labor_cost_percentage = 0,
           overhead_cost_percentage = 40 / 3, base_cost_percentage = 80,
           profit_percentage = 20 \<rparr>"
    by (simp add: calculate_price_unfold)
  from labor_rate_ignored[of 60 2 6 45 20 25 0 1 7 0 "[]" None None] run
  show ?thesis by blast
qed

section \<open>Properties of the validator\<close>

text \<open>
  Claim C5. \<^verbatim>\<open>validate_inputs\<close> reports the first check that fails, in the order machine
  cost, material cost, production time, labor cost, overhead percentage, profit margin
  percentage, batch size; the reasons of the seven checks and the success message are
  pairwise different; and it returns \<open>(True, ''Inputs valid'')\<close> exactly when all seven
  conditions hold.
\<close>

theorem validate_inputs_order:
  "(mc < 0 \<longrightarrow> validate_inputs mc mat t l ov pm b
        = (False, ''Machine cost per hour cannot be negative.''))
   \<and> (0 \<le> mc \<and> mat < 0 \<longrightarrow> validate_inputs mc mat t l ov pm b
        = (False, ''Material cost per unit cannot be negative.''))
   \<and> (0 \<le> mc \<and> 0 \<le> mat \<and> t \<le> 0 \<longrightarrow> validate_inputs mc mat t l ov pm b
        = (False, ''Production time must be greater than zero.''))
   \<and> (0 \<le> mc \<and> 0 \<le> mat \<and> 0 < t \<and> l < 0 \<longrightarrow> validate_inputs mc mat t l ov pm b
        = (False, ''Labor cost per hour cannot be negative.''))
   \<and> (0 \<le> mc \<and> 0 \<le> mat \<and> 0 < t \<and> 0 \<le> l \<and> (ov < 0 \<or> 100 < ov)
        \<longrightarrow> validate_inputs mc mat t l ov pm b
        = (False, ''Overhead percentage must be between 0 and 100.''))
   \<and> (0 \<le> mc \<and> 0 \<le> mat \<and> 0 < t \<and> 0 \<le> l \<and> 0 \<le> ov \<and> ov \<le> 100 \<and> (pm < 0 \<or> 100 < pm)
        \<longrightarrow> validate_inputs mc mat t l ov pm b
        = (False, ''Profit margin percentage must be between 0 and 100.''))
   \<and> (0 \<le> mc \<and> 0 \<le> mat \<and> 0 < t \<and> 0 \<le> l \<and> 0 \<le> ov \<and> ov \<le> 100 \<and> 0 \<le> pm \<and> pm \<le> 100
        \<and> b \<le> 0 \<longrightarrow> validate_inputs mc mat t l ov pm b
        = (False, ''Batch size must be greater than zero.''))
   \<and> (validate_inputs mc mat t l ov pm b = (True, ''Inputs valid'')
        \<longleftrightarrow> 0 \<le> mc \<and> 0 \<le> mat \<and> 0 < t \<and> 0 \<le> l \<and> 0 \<le> ov \<and> ov \<le> 100
            \<and> 0 \<le> pm \<and> pm \<le> 100 \<and> 0 < b)
   \<and> (fst (validate_inputs mc mat t l ov pm b)
        \<longleftrightarrow> validate_inputs mc mat t l ov pm b = (True, ''Inputs valid''))
   \<and> distinct [''Machine cost per hour cannot be negative.'',
                 ''Material cost per unit cannot be negative.'',
                 ''Production time must be greater than zero.'',
                 ''Labor cost per hour cannot be negative.'',
                 ''Overhead percentage must be between 0 and 100.'',
                 ''Profit margin percentage must be between 0 and 100.'',
                 ''Batch size must be greater than zero.'',
                 ''Inputs valid'']"
  unfolding validate_inputs_def by (intro conjI) (auto simp: not_less not_le)

text \<open>
  One input for each of the seven rejections, three of which fail a later check as well,
  and one accepted input.
\<close>

theorem validate_inputs_order_witness:
  "validate_inputs (- 1) 2 6 0 20 25 1 = (False, ''Machine cost per hour cannot be negative.'')
   \<and> validate_inputs 60 (- 2) 0 0 20 25 1 = (False, ''Material cost per unit cannot be negative.'')
   \<and> validate_inputs 60 2 0 0 20 25 1 = (False, ''Production time must be greater than zero.'')
   \<and> validate_inputs 60 2 6 (- 1) 120 25 1 = (False, ''Labor cost per hour cannot be negative.'')
   \<and> validate_inputs 60 2 6 0 101 25 1 = (False, ''Overhead percentage must be between 0 and 100.'')
   \<and> validate_inputs 60 2 6 0 20 (- 5) 0
        = (False, ''Profit margin percentage must be between 0 and 100.'')
   \<and> validate_inputs 60 2 6 0 20 25 0 = (False, ''Batch size must be greater than zero.'')
   \<and> validate_inputs 60 2 6 0 20 25 1 = (True, ''Inputs valid'')"
  using validate_inputs_order[of "- 1" 2 6 0 20 25 1]
    validate_inputs_order[of 60 "- 2" 0 0 20 25 1]
    validate_inputs_order[of 60 2 0 0 20 25 1]
    validate_inputs_order[of 60 2 6 "- 1" 120 25 1]
    validate_inputs_order[of 60 2 6 0 101 25 1]
    validate_inputs_order[of 60 2 6 0 20 "- 5" 0]
    validate_inputs_order[of 60 2 6 0 20 25 0]
    validate_inputs_order[of 60 2 6 0 20 25 1]
  by simp

end
